theory Spec2Isabelle
  imports Complex_Main "HOL-Library.AList"
begin

section \<open>Strings and paths\<close>

text \<open>
  The two scripts \<^verbatim>\<open>scripts/training/buildVectorIndex.py\<close> and
  \<^verbatim>\<open>scripts/training/testIndex.py\<close> work on file names and POSIX paths.
  \<open>endswith\<close> is \<^verbatim>\<open>str.endswith\<close>, \<open>path_join\<close> is \<^verbatim>\<open>os.path.join\<close> and
  \<open>dirname\<close> is \<^verbatim>\<open>os.path.dirname\<close> of \<^verbatim>\<open>posixpath\<close>.
\<close>

definition endswith :: "string \<Rightarrow> string \<Rightarrow> bool" where
  "endswith s suf = (length suf \<le> length s \<and> drop (length s - length suf) s = suf)"

text \<open>\<^verbatim>\<open>f.endswith(('.jpg', '.jpeg', '.png'))\<close> (line 48 of the builder).\<close>

definition is_image_file :: "string \<Rightarrow> bool" where
  "is_image_file f = (endswith f ''.jpg'' \<or> endswith f ''.jpeg'' \<or> endswith f ''.png'')"

definition replace_char :: "char \<Rightarrow> char \<Rightarrow> string \<Rightarrow> string" where
  "replace_char a b s = map (\<lambda>c. if c = a then b else c) s"

text \<open>\<^verbatim>\<open>img_file.split('.')[0].replace('_', ' ').replace('-', ' ')\<close> (line 75).\<close>

definition card_name_of :: "string \<Rightarrow> string" where
  "card_name_of img_file =
     replace_char (CHR ''-'') (CHR '' '')
       (replace_char (CHR ''_'') (CHR '' '') (takeWhile (\<lambda>c. c \<noteq> CHR ''.'') img_file))"

definition path_join2 :: "string \<Rightarrow> string \<Rightarrow> string" where
  "path_join2 path b =
     (if b \<noteq> [] \<and> hd b = CHR ''/'' then b
      else if path = [] \<or> last path = CHR ''/'' then path @ b
      else path @ ''/'' @ b)"

definition path_join :: "string \<Rightarrow> string list \<Rightarrow> string" where
  "path_join a ps = foldl path_join2 a ps"

definition dirname :: "string \<Rightarrow> string" where
  "dirname p =
     (let head = rev (dropWhile (\<lambda>c. c \<noteq> CHR ''/'') (rev p))
      in if head \<noteq> [] \<and> \<not> list_all (\<lambda>c. c = CHR ''/'') head
         then rev (dropWhile (\<lambda>c. c = CHR ''/'') (rev head))
         else head)"

section \<open>Values, printed lines and errors\<close>

text \<open>
  Python values that reach a JSON file. A \<^verbatim>\<open>dict\<close> keeps its keys in insertion order
  and holds each key once, so an object is an association list that is only changed
  through \<open>AList.update\<close>: an existing key keeps its place, a new key goes to the end.
  A \<^verbatim>\<open>float\<close> is taken as a real number; the model does no arithmetic on it.
\<close>

datatype json =
    JNull
  | JBool bool
  | JInt int
  | JFloat real
  | JStr string
  | JList "json list"
  | JObj "(string \<times> json) list"

text \<open>
  A printed line is the list of the pieces of its f-string: literal text, an integer
  field and a float field printed with \<^verbatim>\<open>:.4f\<close>.
\<close>

datatype frag = S string | N int | F4 real

type_synonym line = "frag list"

datatype error =
    FileNotFoundError
  | FileExistsError
  | IsADirectoryError
  | NotADirectoryError
  | JSONDecodeError
  | ReadError
  | TypeError
  | ValueError
  | IndexError
  | KeyError

text \<open>
  How a call of \<^verbatim>\<open>build_index\<close> or \<^verbatim>\<open>test_index\<close> ends: it returns, or an exception
  leaves it. Both scripts call the function as the last statement of their
  \<^verbatim>\<open>__main__\<close> block, so the interpreter exits with status 0 after a return and with
  status 1 after an uncaught exception.
\<close>

datatype outcome = Returned | Raised error

fun exit_status :: "outcome \<Rightarrow> nat" where
  "exit_status Returned = 0"
| "exit_status (Raised e) = 1"

section \<open>The file system and the libraries\<close>

text \<open>
  A file holds a FAISS flat index (its rows), a JSON text (the value it parses to) or
  other bytes. \<open>listdir\<close> is what \<^verbatim>\<open>os.listdir\<close> answers for a directory: the names, in
  the order the operating system gives them.
\<close>

datatype content = Faiss "real list list" | Json json | Bytes

record world =
  dirs :: "string set"
  files :: "string \<rightharpoonup> content"
  listdir :: "string \<Rightarrow> string list"

definition exists :: "world \<Rightarrow> string \<Rightarrow> bool" where
  "exists w p = (p \<in> dirs w \<or> files w p \<noteq> None)"

text \<open>\<^verbatim>\<open>os.makedirs(p, exist_ok=True)\<close>: the empty path and a path that is a file raise.\<close>

definition makedirs :: "world \<Rightarrow> string \<Rightarrow> error + world" where
  "makedirs w p =
     (if p = [] then Inl FileNotFoundError
      else if files w p \<noteq> None then Inl FileExistsError
      else Inr (w\<lparr>dirs := insert p (dirs w)\<rparr>))"

text \<open>Writing a file (\<^verbatim>\<open>open(p, 'w')\<close>, \<^verbatim>\<open>faiss.write_index\<close>) replaces its content.\<close>

definition write_file :: "world \<Rightarrow> string \<Rightarrow> content \<Rightarrow> error + world" where
  "write_file w p c =
     (if p \<in> dirs w then Inl IsADirectoryError
      else Inr (w\<lparr>files := (files w)(p \<mapsto> c)\<rparr>))"

text \<open>\<^verbatim>\<open>json.load(open(p, 'r'))\<close>.\<close>

definition json_load :: "world \<Rightarrow> string \<Rightarrow> error + json" where
  "json_load w p =
     (if p \<in> dirs w then Inl IsADirectoryError
      else case files w p of
             None \<Rightarrow> Inl FileNotFoundError
           | Some (Json j) \<Rightarrow> Inr j
           | Some _ \<Rightarrow> Inl JSONDecodeError)"

text \<open>\<^verbatim>\<open>faiss.read_index(p)\<close>.\<close>

definition read_index :: "world \<Rightarrow> string \<Rightarrow> error + real list list" where
  "read_index w p =
     (case files w p of
        Some (Faiss rows) \<Rightarrow> Inr rows
      | _ \<Rightarrow> Inl ReadError)"

text \<open>
  The CLIP model, its processor and the FAISS search are libraries. \<open>image_features\<close>
  stands for lines 63 to 70 of the builder on one image path: the normalised feature
  row of the image, or the message of the exception that the \<^verbatim>\<open>try\<close> block catches.
  \<open>text_features\<close> is the same for the query text, and \<open>search\<close> is
  \<^verbatim>\<open>index.search(query_vector, k)\<close>: the rows \<^verbatim>\<open>D[0]\<close> and \<^verbatim>\<open>I[0]\<close>.
\<close>

record env =
  device :: string
  image_features :: "string \<Rightarrow> string + real list"
  text_features :: "string \<Rightarrow> real list"
  search :: "real list list \<Rightarrow> real list \<Rightarrow> nat \<Rightarrow> real list \<times> int list"

record args =
  deck :: string
  adapter_path :: "string option"
  export_json :: "string option"

text \<open>A run: how it ended, what it printed, and the file system it left.\<close>

record run =
  status :: outcome
  printed :: "line list"
  final :: world

section \<open>The index builder\<close>

text \<open>One entry of \<^verbatim>\<open>metadata\<close> (lines 76 to 80); \<open>ident\<close> is the key \<^verbatim>\<open>"id"\<close>.\<close>

record meta =
  ident :: nat
  filename :: string
  card_name :: string

definition meta_json :: "meta \<Rightarrow> json" where
  "meta_json m =
     JObj [(''id'', JInt (int (ident m))),
           (''filename'', JStr (filename m)),
           (''card_name'', JStr (card_name m))]"

text \<open>
  The loop of lines 60 to 82 over \<^verbatim>\<open>enumerate(image_files)\<close>, from position \<open>idx\<close> on.
  \<^verbatim>\<open>image_features.cpu().numpy()\<close> is an array of shape \<open>(1, d)\<close>: the batch holds the
  one image, and line 89 reads \<^verbatim>\<open>shape[1]\<close> as the dimension. So one element of
  \<^verbatim>\<open>embeddings\<close> is a matrix of one row.
\<close>

fun embed_loop ::
  "env \<Rightarrow> string \<Rightarrow> nat \<Rightarrow> string list \<Rightarrow>
   real list list list \<times> meta list \<times> line list \<Rightarrow>
   real list list list \<times> meta list \<times> line list" where
  "embed_loop e image_dir idx [] acc = acc"
| "embed_loop e image_dir idx (img_file # rest) (embeddings, metadata, out) =
     (case image_features e (path_join image_dir [img_file]) of
        Inl msg \<Rightarrow>
          embed_loop e image_dir (Suc idx) rest
            (embeddings, metadata,
             out @ [[S ''Error processing '', S img_file, S '': '', S msg]])
      | Inr v \<Rightarrow>
          embed_loop e image_dir (Suc idx) rest
            (embeddings @ [[v]],
             metadata @ [\<lparr>ident = idx, filename = img_file,
                          card_name = card_name_of img_file\<rparr>],
             out))"

text \<open>\<^verbatim>\<open>embeddings[i].tolist()\<close> of a two-dimensional array (line 140).\<close>

definition tolist :: "real list list \<Rightarrow> json" where
  "tolist a = JList (map (\<lambda>row. JList (map JFloat row)) a)"

text \<open>The loop of lines 137 to 145, which fills the dict \<^verbatim>\<open>cards_data\<close>.\<close>

fun cards_loop ::
  "(meta \<times> real list list) list \<Rightarrow> (string \<times> json) list \<Rightarrow> (string \<times> json) list" where
  "cards_loop [] cards_data = cards_data"
| "cards_loop ((m, emb) # rest) cards_data =
     cards_loop rest
       (AList.update (card_name m)
          (JObj [(''embedding'', tolist emb), (''count'', JInt 1)]) cards_data)"

text \<open>\<^verbatim>\<open>deck_id_map.get(args.deck, args.deck)\<close> (lines 130 to 135).\<close>

definition app_deck_id :: "string \<Rightarrow> string" where
  "app_deck_id d =
     (case map_of [(''rws'', ''rws-1909''), (''thoth'', ''thoth''),
                   (''marseille'', ''marseille'')] d of
        Some i \<Rightarrow> i
      | None \<Rightarrow> d)"

text \<open>
  Lines 118 to 124: the document the merge starts from. The bare \<^verbatim>\<open>except\<close> keeps the
  empty dict when the file cannot be opened or parsed.
\<close>

definition load_export :: "world \<Rightarrow> string \<Rightarrow> json" where
  "load_export w export_path =
     (if exists w export_path
      then (case json_load w export_path of Inr j \<Rightarrow> j | Inl _ \<Rightarrow> JObj [])
      else JObj [])"

text \<open>
  Lines 126 to 149 on the loaded document. Only a dict passes
  \<^verbatim>\<open>"deckStyles" not in full_export\<close> followed by the two subscript stores: on a list,
  a string, a number, a boolean or null one of the three raises \<^verbatim>\<open>TypeError\<close>, and so
  does the store into a \<^verbatim>\<open>"deckStyles"\<close> value that is not a dict.
\<close>

definition merge_export :: "json \<Rightarrow> string \<Rightarrow> (string \<times> json) list \<Rightarrow> error + json" where
  "merge_export full_export deck_id cards_data =
     (case full_export of
        JObj doc \<Rightarrow>
          (let doc' = (if ''deckStyles'' \<in> fst ` set doc then doc
                       else AList.update ''deckStyles'' (JObj []) doc)
           in case map_of doc' ''deckStyles'' of
                Some (JObj styles) \<Rightarrow>
                  Inr (JObj (AList.update ''deckStyles''
                         (JObj (AList.update deck_id (JObj [(''cards'', JObj cards_data)]) styles))
                         doc'))
              | _ \<Rightarrow> Inl TypeError)
      | _ \<Rightarrow> Inl TypeError)"

text \<open>Step 6 of \<^verbatim>\<open>build_index\<close> (lines 113 to 154), entered with a non-empty export path.\<close>

definition export_step ::
  "string \<Rightarrow> string \<Rightarrow> meta list \<Rightarrow> real list list list \<Rightarrow> line list \<Rightarrow> world \<Rightarrow> run" where
  "export_step dk export_path metadata embeddings out w =
     (let out1 = out @ [[S ''Exporting embeddings to JSON for web app: '', S export_path]];
          full_export = load_export w export_path;
          cards_data = cards_loop (zip metadata embeddings) []
      in case merge_export full_export (app_deck_id dk) cards_data of
           Inl err \<Rightarrow> \<lparr>status = Raised err, printed = out1, final = w\<rparr>
         | Inr merged \<Rightarrow>
             (case makedirs w (dirname export_path) of
                Inl err \<Rightarrow> \<lparr>status = Raised err, printed = out1, final = w\<rparr>
              | Inr w1 \<Rightarrow>
                  (case write_file w1 export_path (Json merged) of
                     Inl err \<Rightarrow> \<lparr>status = Raised err, printed = out1, final = w1\<rparr>
                   | Inr w2 \<Rightarrow>
                       \<lparr>status = Returned,
                        printed = out1 @ [[S ''Updated '', S export_path, S '' with '',
                                           N (int (length cards_data)), S '' cards for '',
                                           S (app_deck_id dk)]],
                        final = w2\<rparr>)))"

text \<open>
  Steps 4 and 5 (lines 88 to 110). \<^verbatim>\<open>np.vstack\<close> stacks the one-row matrices and
  raises \<^verbatim>\<open>ValueError\<close> when their rows differ in length; \<^verbatim>\<open>index.add\<close> appends the
  stacked rows in their order, so \<^verbatim>\<open>index.ntotal\<close> is their number.
\<close>

definition vstack :: "real list list list \<Rightarrow> error + real list list" where
  "vstack embeddings =
     (let rows = concat embeddings
      in if \<exists>r \<in> set rows. length r \<noteq> length (hd rows) then Inl ValueError else Inr rows)"

definition save_step ::
  "args \<Rightarrow> meta list \<Rightarrow> real list list list \<Rightarrow> line list \<Rightarrow> world \<Rightarrow> run" where
  "save_step a metadata embeddings out w =
     (case vstack embeddings of
        Inl err \<Rightarrow> \<lparr>status = Raised err, printed = out, final = w\<rparr>
      | Inr index \<Rightarrow>
          (let out1 = out @ [[S ''Index built with '', N (int (length index)), S '' vectors.'']];
               output_dir = path_join ''data'' [''indices'', deck a];
               index_path = path_join output_dir [''index.faiss''];
               metadata_path = path_join output_dir [''metadata.json'']
           in case makedirs w output_dir of
                Inl err \<Rightarrow> \<lparr>status = Raised err, printed = out1, final = w\<rparr>
              | Inr w1 \<Rightarrow>
                  (case write_file w1 index_path (Faiss index) of
                     Inl err \<Rightarrow> \<lparr>status = Raised err, printed = out1, final = w1\<rparr>
                   | Inr w2 \<Rightarrow>
                       (case write_file w2 metadata_path (Json (JList (map meta_json metadata))) of
                          Inl err \<Rightarrow> \<lparr>status = Raised err, printed = out1, final = w2\<rparr>
                        | Inr w3 \<Rightarrow>
                            (let out2 = out1 @ [[S ''Saved index to '', S index_path],
                                                [S ''Saved metadata to '', S metadata_path]]
                             in case export_json a of
                                  None \<Rightarrow> \<lparr>status = Returned, printed = out2, final = w3\<rparr>
                                | Some export_path \<Rightarrow>
                                    if export_path = []
                                    then \<lparr>status = Returned, printed = out2, final = w3\<rparr>
                                    else export_step (deck a) export_path metadata embeddings
                                           out2 w3)))))"

text \<open>
  Steps 1 to 3 of \<^verbatim>\<open>build_index\<close> (lines 24 to 86): either the run that an early
  \<^verbatim>\<open>return\<close> (or \<^verbatim>\<open>os.listdir\<close> on a path that is no directory) ends, or the lists
  \<^verbatim>\<open>embeddings\<close> and \<^verbatim>\<open>metadata\<close> with the lines printed so far. Loading the model
  (lines 27 to 40) touches no file of the pipeline; its two messages are kept.
\<close>

definition embed_step ::
  "env \<Rightarrow> args \<Rightarrow> world \<Rightarrow> run + (real list list list \<times> meta list \<times> line list)" where
  "embed_step e a w =
     (let out0 = [[S ''Building vector index for deck: '', S (deck a), S '' on '', S (device e)],
                  (case adapter_path a of
                     None \<Rightarrow> [S ''Using base CLIP model (no adapter loaded)'']
                   | Some ap \<Rightarrow>
                       if ap \<noteq> [] \<and> exists w ap
                       then [S ''Loading LoRA adapter from '', S ap]
                       else [S ''Using base CLIP model (no adapter loaded)''])];
          image_dir = path_join ''data'' [''raw_images'', deck a]
      in if \<not> exists w image_dir
         then Inl \<lparr>status = Returned,
                   printed = out0 @ [[S ''Error: Image directory '', S image_dir,
                                      S '' not found.'']],
                   final = w\<rparr>
         else if image_dir \<notin> dirs w
         then Inl \<lparr>status = Raised NotADirectoryError, printed = out0, final = w\<rparr>
         else
           (let image_files = filter is_image_file (listdir w image_dir)
            in if image_files = []
               then Inl \<lparr>status = Returned, printed = out0 @ [[S ''No images found.'']],
                         final = w\<rparr>
               else
                 (let out1 = out0 @ [[S ''Found '', N (int (length image_files)),
                                      S '' images. Generating embeddings...'']];
                      (embeddings, metadata, out2) =
                         embed_loop e image_dir 0 image_files ([], [], out1)
                  in if embeddings = []
                     then Inl \<lparr>status = Returned,
                               printed = out2 @ [[S ''No embeddings generated.'']], final = w\<rparr>
                     else Inr (embeddings, metadata, out2))))"

text \<open>\<^verbatim>\<open>build_index(args)\<close>.\<close>

definition build_index :: "env \<Rightarrow> args \<Rightarrow> world \<Rightarrow> run" where
  "build_index e a w =
     (case embed_step e a w of
        Inl r \<Rightarrow> r
      | Inr (embeddings, metadata, out) \<Rightarrow> save_step a metadata embeddings out w)"

section \<open>The index query\<close>

text \<open>
  The subscript \<^verbatim>\<open>metadata[idx]\<close> of line 73 on a list of \<open>n\<close> entries: positions
  \<open>0\<close> to \<open>n - 1\<close> read from the front, positions \<open>-n\<close> to \<open>-1\<close> read from the back
  (\<open>-1\<close> is the last entry), and every other position raises \<^verbatim>\<open>IndexError\<close>.
\<close>

definition py_index :: "'a list \<Rightarrow> int \<Rightarrow> error + 'a" where
  "py_index xs i =
     (if 0 \<le> i \<and> i < int (length xs) then Inr (xs ! nat i)
      else if i < 0 \<and> - int (length xs) \<le> i then Inr (xs ! nat (int (length xs) + i))
      else Inl IndexError)"

text \<open>
  The loop of lines 69 to 77, from \<open>i\<close> up to \<open>k\<close>. \<^verbatim>\<open>I[0][i]\<close> and \<^verbatim>\<open>D[0][i]\<close> are
  reads of numpy rows with a position that is never negative; out of range they raise.
\<close>

function results_loop ::
  "nat \<Rightarrow> nat \<Rightarrow> int list \<Rightarrow> real list \<Rightarrow> meta list \<Rightarrow> line list \<Rightarrow> outcome \<times> line list" where
  "results_loop i k Irow Drow metadata out =
     (if k \<le> i then (Returned, out)
      else if length Irow \<le> i \<or> length Drow \<le> i then (Raised IndexError, out)
      else
        (let idx = Irow ! i; score = Drow ! i
         in if idx < int (length metadata)
            then (case py_index metadata idx of
                    Inl err \<Rightarrow> (Raised err, out)
                  | Inr card_info \<Rightarrow>
                      results_loop (Suc i) k Irow Drow metadata
                        (out @ [[S ''Rank '', N (int i + 1), S '': '', S (card_name card_info),
                                 S '' (Score: '', F4 score, S '')''],
                                [S ''        File: '', S (filename card_info)]]))
            else results_loop (Suc i) k Irow Drow metadata
                   (out @ [[S ''Rank '', N (int i + 1), S '': Unknown Index '', N idx]])))"
  by pat_completeness auto
termination
  by (relation "measure (\<lambda>(i, k, Irow, Drow, metadata, out). k - i)") auto

declare results_loop.simps [simp del]

text \<open>
  \<^verbatim>\<open>metadata = json.load(f)\<close> of a file in the builder's format: a list of objects with
  the keys \<^verbatim>\<open>id\<close>, \<^verbatim>\<open>filename\<close> and \<^verbatim>\<open>card_name\<close>. The query is modelled on such files; on
  any other JSON value this model raises \<^verbatim>\<open>TypeError\<close>.
\<close>

fun json_meta :: "json \<Rightarrow> meta option" where
  "json_meta (JObj [(k1, JInt i), (k2, JStr f), (k3, JStr c)]) =
     (if k1 = ''id'' \<and> k2 = ''filename'' \<and> k3 = ''card_name'' \<and> 0 \<le> i
      then Some \<lparr>ident = nat i, filename = f, card_name = c\<rparr> else None)"
| "json_meta _ = None"

definition load_metadata :: "world \<Rightarrow> string \<Rightarrow> error + meta list" where
  "load_metadata w p =
     (case json_load w p of
        Inl err \<Rightarrow> Inl err
      | Inr (JList js) \<Rightarrow>
          (if list_all (\<lambda>j. json_meta j \<noteq> None) js then Inr (map (\<lambda>j. the (json_meta j)) js)
           else Inl TypeError)
      | Inr _ \<Rightarrow> Inl TypeError)"

text \<open>
  \<^verbatim>\<open>test_index(args)\<close>, with \<open>q\<close> for \<^verbatim>\<open>args.query\<close> and \<^verbatim>\<open>k = 5\<close> (line 65).
  \<open>CHR 0x27\<close> is the single quote around the query text, and the empty line is the
  line feed that starts the header of line 68.
\<close>

definition test_index :: "env \<Rightarrow> string \<Rightarrow> string \<Rightarrow> world \<Rightarrow> run" where
  "test_index e dk q w =
     (let out0 = [[S ''Testing index for deck: '', S dk]];
          index_path = path_join ''data'' [''indices'', dk, ''index.faiss''];
          metadata_path = path_join ''data'' [''indices'', dk, ''metadata.json'']
      in if \<not> exists w index_path \<or> \<not> exists w metadata_path
         then \<lparr>status = Returned,
               printed = out0 @ [[S ''Error: Index or metadata not found in data/indices/'', S dk]],
               final = w\<rparr>
         else
           (case read_index w index_path of
              Inl err \<Rightarrow> \<lparr>status = Raised err, printed = out0, final = w\<rparr>
            | Inr index \<Rightarrow>
                (case load_metadata w metadata_path of
                   Inl err \<Rightarrow> \<lparr>status = Raised err, printed = out0, final = w\<rparr>
                 | Inr metadata \<Rightarrow>
                     (let out1 = out0 @
                            [[S ''Loaded index with '', N (int (length index)), S '' vectors.''],
                             (if exists w (path_join ''models'' [''adapters'', dk])
                              then [S ''Loading LoRA adapter from '',
                                    S (path_join ''models'' [''adapters'', dk])]
                              else [S ''Warning: Adapter not found, using base model.'']),
                             [S (''Query: '' @ [CHR 0x27]), S q, S [CHR 0x27]]];
                          query_vector = text_features e q;
                          k = 5;
                          (D, I) = search e index query_vector k;
                          (st, out2) =
                             results_loop 0 k I D metadata
                               (out1 @ [[], [S ''--- Search Results ---'']])
                      in \<lparr>status = st, printed = out2, final = w\<rparr>))))"

section \<open>Sample runs\<close>

text \<open>
  The exact inner-product search of a flat index as the FAISS documentation describes it:
  the \<open>k\<close> rows with the largest inner product, best first, and when the index holds
  fewer than \<open>k\<close> rows the missing places filled with position \<open>-1\<close> and the lowest
  float32 score. It is the \<open>search\<close> of the sample environment only.
\<close>

definition inner_product :: "real list \<Rightarrow> real list \<Rightarrow> real" where
  "inner_product x y = sum_list (map2 (*) x y)"

definition flat_ip_search :: "real list list \<Rightarrow> real list \<Rightarrow> nat \<Rightarrow> real list \<times> int list" where
  "flat_ip_search rows q k =
     (let scored = sort_key (\<lambda>(s, i). - s)
                     (zip (map (inner_product q) rows) (map int [0..<length rows]));
          best = take k scored;
          pad = k - length best
      in (map fst best @ replicate pad (- 340282346638528859811704183484516925440),
          map snd best @ replicate pad (- 1)))"

text \<open>
  A sample environment: five image files of the deck \<^verbatim>\<open>rws\<close> decode, every other path
  (so \<^verbatim>\<open>bad.jpg\<close>) raises inside the \<^verbatim>\<open>try\<close> block.
\<close>

definition sample_env :: env where
  "sample_env =
     \<lparr>device = ''cpu'',
      image_features =
        (\<lambda>p. case map_of [(''data/raw_images/rws/01_fool.jpg'', [1, 0, 0]),
                          (''data/raw_images/rws/02_magician.jpg'', [0, 1, 0]),
                          (''data/raw_images/rws/03_priestess.jpg'', [0, 0, 1]),
                          (''data/raw_images/rws/fool.jpg'', [1, 0, 0]),
                          (''data/raw_images/rws/fool.png'', [0, 1, 0])] p of
                Some v \<Rightarrow> Inr v
              | None \<Rightarrow> Inl ''cannot identify image file''),
      text_features = (\<lambda>q. [3 / 5, 4 / 5, 0]),
      search = flat_ip_search\<rparr>"

definition rws_args :: args where
  "rws_args = \<lparr>deck = ''rws'', adapter_path = None, export_json = None\<rparr>"

text \<open>A file system with nothing in it, and one that holds the image directory of
  \<^verbatim>\<open>rws\<close> with a given listing.\<close>

definition empty_world :: world where
  "empty_world = \<lparr>dirs = {}, files = Map.empty, listdir = (\<lambda>d. [])\<rparr>"

definition rws_world :: "string list \<Rightarrow> world" where
  "rws_world names =
     \<lparr>dirs = {''data/raw_images/rws''}, files = Map.empty,
      listdir = (\<lambda>d. if d = ''data/raw_images/rws'' then names else [])\<rparr>"



text \<open>The same directory with an export document already on disk, and a build that
  exports to it.\<close>

definition export_args :: args where
  "export_args =
     \<lparr>deck = ''rws'', adapter_path = None,
      export_json = Some ''data/vision/prototypes.json''\<rparr>"


text \<open>
  Reading an export document back: the entries at top level, the entries of the dict
  under \<^verbatim>\<open>deckStyles\<close> (one per deck), and the document that a path holds: the
  value its file parses to, and the empty document when there is no file or it does not
  parse.
\<close>

definition top_entries :: "json \<Rightarrow> (string \<times> json) list" where
  "top_entries j = (case j of JObj doc \<Rightarrow> doc | _ \<Rightarrow> [])"

definition deck_entries :: "json \<Rightarrow> (string \<times> json) list" where
  "deck_entries j =
     (case map_of (top_entries j) ''deckStyles'' of
        Some (JObj styles) \<Rightarrow> styles
      | _ \<Rightarrow> [])"

definition document_at :: "world \<Rightarrow> string \<Rightarrow> json" where
  "document_at w p = (case files w p of Some (Json j) \<Rightarrow> j | _ \<Rightarrow> JObj [])"


section \<open>The embedding loop\<close>

lemma embed_loop_all_fail:
  "\<forall>f \<in> set fs. isl (image_features e (path_join d [f])) \<Longrightarrow>
   fst (embed_loop e d idx fs (E, M, out)) = E"
  by (induction fs arbitrary: idx out) (auto split: sum.splits)

lemma embed_loop_length:
  "length (fst (embed_loop e d idx fs (E, M, out))) - length E
     = length (fst (snd (embed_loop e d idx fs (E, M, out)))) - length M
   \<and> length E \<le> length (fst (embed_loop e d idx fs (E, M, out)))
   \<and> length M \<le> length (fst (snd (embed_loop e d idx fs (E, M, out))))"
proof (induction fs arbitrary: idx E M out)
  case Nil
  show ?case by simp
next
  case (Cons f fs)
  show ?case
  proof (cases "image_features e (path_join d [f])")
    case (Inl msg)
    then show ?thesis using Cons.IH [of "Suc idx" E M] by simp
  next
    case (Inr v)
    then show ?thesis
      using Cons.IH [of "Suc idx" "E @ [[v]]" "M @ [\<lparr>ident = idx, filename = f, card_name = card_name_of f\<rparr>]" out]
      by simp linarith
  qed
qed

section \<open>Aborted builds\<close>

text \<open>
  Claim C5. When the image directory holds no image file, or when every image file
  fails inside the \<^verbatim>\<open>try\<close> block, the build returns with the file system as it found
  it: no index file, no metadata file, no directory made. Its last message is
  \<^verbatim>\<open>No images found.\<close> in the first case and \<^verbatim>\<open>No embeddings generated.\<close> in the second.
\<close>

theorem build_aborts_without_artifacts:
  assumes dir: "path_join ''data'' [''raw_images'', deck a] \<in> dirs w"
    and none: "filter is_image_file (listdir w (path_join ''data'' [''raw_images'', deck a])) = [] \<or>
               (\<forall>f \<in> set (filter is_image_file (listdir w (path_join ''data'' [''raw_images'', deck a]))).
                  isl (image_features e (path_join (path_join ''data'' [''raw_images'', deck a]) [f])))"
  shows "final (build_index e a w) = w \<and> status (build_index e a w) = Returned \<and>
         last (printed (build_index e a w)) =
           (if filter is_image_file (listdir w (path_join ''data'' [''raw_images'', deck a])) = []
            then [S ''No images found.''] else [S ''No embeddings generated.''])"
proof (cases "filter is_image_file (listdir w (path_join ''data'' [''raw_images'', deck a])) = []")
  case True
  with dir show ?thesis
    by (simp add: build_index_def embed_step_def exists_def Let_def)
next
  case False
  let ?d = "path_join ''data'' [''raw_images'', deck a]"
  let ?fs = "filter is_image_file (listdir w ?d)"
  have empty: "E = []" if "embed_loop e ?d 0 ?fs ([], [], out) = (E, M, out2)" for out E M out2
    using none False embed_loop_all_fail [of ?fs e ?d 0 "[]" "[]" out] that by simp
  from dir False show ?thesis
    by (auto simp: build_index_def embed_step_def exists_def Let_def split: prod.splits
          dest: empty)
qed

theorem build_aborts_witness:
  "final (build_index sample_env rws_args (rws_world [''bad.jpg'', ''notes.txt''])) =
     rws_world [''bad.jpg'', ''notes.txt''] \<and>
   last (printed (build_index sample_env rws_args (rws_world [''bad.jpg'', ''notes.txt'']))) =
     [S ''No embeddings generated.'']"
  using build_aborts_without_artifacts
          [of rws_args "rws_world [''bad.jpg'', ''notes.txt'']" sample_env]
  by (simp add: rws_args_def rws_world_def sample_env_def path_join_def path_join2_def
        is_image_file_def endswith_def)

section \<open>The saved artifacts\<close>

lemma export_step_other_files:
  "q \<noteq> export_path \<Longrightarrow>
   files (final (export_step dk export_path M E out w)) q = files w q"
  by (auto simp: export_step_def makedirs_def write_file_def Let_def
        split: sum.splits if_splits)

lemma artifact_paths_differ:
  "path_join p [''index.faiss''] \<noteq> path_join p [''metadata.json'']"
  by (simp add: path_join_def path_join2_def)

lemma save_step_files:
  assumes ret: "status (save_step a M E out w) = Returned"
    and ni: "export_json a \<noteq> Some (path_join (path_join ''data'' [''indices'', deck a]) [''index.faiss''])"
    and nm: "export_json a \<noteq> Some (path_join (path_join ''data'' [''indices'', deck a]) [''metadata.json''])"
  shows "files (final (save_step a M E out w))
           (path_join (path_join ''data'' [''indices'', deck a]) [''index.faiss''])
           = Some (Faiss (concat E)) \<and>
         files (final (save_step a M E out w))
           (path_join (path_join ''data'' [''indices'', deck a]) [''metadata.json''])
           = Some (Json (JList (map meta_json M)))"
proof -
  let ?od = "path_join ''data'' [''indices'', deck a]"
  let ?ip = "path_join ?od [''index.faiss'']"
  let ?mp = "path_join ?od [''metadata.json'']"
  from ret obtain rows where vs: "vstack E = Inr rows"
    by (cases "vstack E") (auto simp: save_step_def)
  then have rows: "rows = concat E"
    by (auto simp: vstack_def Let_def split: if_splits)
  from ret vs obtain w1 where m1: "makedirs w ?od = Inr w1"
    by (cases "makedirs w ?od") (auto simp: save_step_def Let_def)
  from ret vs m1 obtain w2 where wi: "write_file w1 ?ip (Faiss rows) = Inr w2"
    by (cases "write_file w1 ?ip (Faiss rows)") (auto simp: save_step_def Let_def)
  from ret vs m1 wi obtain w3 where
    wm: "write_file w2 ?mp (Json (JList (map meta_json M))) = Inr w3"
    by (cases "write_file w2 ?mp (Json (JList (map meta_json M)))")
       (auto simp: save_step_def Let_def)
  have f3: "files w3 ?ip = Some (Faiss (concat E)) \<and>
            files w3 ?mp = Some (Json (JList (map meta_json M)))"
    using wi wm rows artifact_paths_differ [of ?od]
    by (auto simp: write_file_def split: if_splits)
  show ?thesis
  proof (cases "export_json a")
    case None
    with vs m1 wi wm f3 show ?thesis by (simp add: save_step_def Let_def)
  next
    case (Some p)
    with ni nm have "?ip \<noteq> p" "?mp \<noteq> p" by auto
    with Some vs m1 wi wm f3 show ?thesis
      by (simp add: save_step_def Let_def export_step_other_files)
  qed
qed

text \<open>
  Claim C4, as amended. The build does not sort: \<^verbatim>\<open>image_files\<close> keeps the order of
  \<^verbatim>\<open>os.listdir\<close>. When the listing of the image directory is \<^verbatim>\<open>01_fool.jpg\<close>,
  \<^verbatim>\<open>02_magician.jpg\<close>, \<^verbatim>\<open>03_priestess.jpg\<close> in this order, all three decode and the
  build completes, the metadata file holds the three entries with ids 0, 1, 2 and card
  names \<^verbatim>\<open>01 fool\<close>, \<^verbatim>\<open>02 magician\<close>, \<^verbatim>\<open>03 priestess\<close> in this order, and the index
  file holds the three feature rows in the same order. (The export path, if one is
  given, is not one of the two artifact paths.)
\<close>

theorem build_follows_listing_order:
  assumes dir: "path_join ''data'' [''raw_images'', deck a] \<in> dirs w"
    and ls: "listdir w (path_join ''data'' [''raw_images'', deck a]) =
               [''01_fool.jpg'', ''02_magician.jpg'', ''03_priestess.jpg'']"
    and d1: "image_features e (path_join (path_join ''data'' [''raw_images'', deck a]) [''01_fool.jpg'']) = Inr v1"
    and d2: "image_features e (path_join (path_join ''data'' [''raw_images'', deck a]) [''02_magician.jpg'']) = Inr v2"
    and d3: "image_features e (path_join (path_join ''data'' [''raw_images'', deck a]) [''03_priestess.jpg'']) = Inr v3"
    and ret: "status (build_index e a w) = Returned"
    and ni: "export_json a \<noteq> Some (path_join (path_join ''data'' [''indices'', deck a]) [''index.faiss''])"
    and nm: "export_json a \<noteq> Some (path_join (path_join ''data'' [''indices'', deck a]) [''metadata.json''])"
  shows "files (final (build_index e a w))
           (path_join (path_join ''data'' [''indices'', deck a]) [''metadata.json'']) =
         Some (Json (JList
           [JObj [(''id'', JInt 0), (''filename'', JStr ''01_fool.jpg''),
                  (''card_name'', JStr ''01 fool'')],
            JObj [(''id'', JInt 1), (''filename'', JStr ''02_magician.jpg''),
                  (''card_name'', JStr ''02 magician'')],
            JObj [(''id'', JInt 2), (''filename'', JStr ''03_priestess.jpg''),
                  (''card_name'', JStr ''03 priestess'')]])) \<and>
         files (final (build_index e a w))
           (path_join (path_join ''data'' [''indices'', deck a]) [''index.faiss'']) =
         Some (Faiss [v1, v2, v3])"
proof -
  let ?d = "path_join ''data'' [''raw_images'', deck a]"
  have imgs: "filter is_image_file (listdir w ?d) =
                [''01_fool.jpg'', ''02_magician.jpg'', ''03_priestess.jpg'']"
    by (simp add: ls is_image_file_def endswith_def)
  have "\<exists>out. embed_step e a w =
          Inr ([[v1], [v2], [v3]],
               [\<lparr>ident = 0, filename = ''01_fool.jpg'', card_name = ''01 fool''\<rparr>,
                \<lparr>ident = 1, filename = ''02_magician.jpg'', card_name = ''02 magician''\<rparr>,
                \<lparr>ident = 2, filename = ''03_priestess.jpg'', card_name = ''03 priestess''\<rparr>],
               out)"
    using dir d1 d2 d3
    by (simp add: embed_step_def exists_def Let_def imgs card_name_of_def replace_char_def)
  then obtain out where es: "embed_step e a w =
          Inr ([[v1], [v2], [v3]],
               [\<lparr>ident = 0, filename = ''01_fool.jpg'', card_name = ''01 fool''\<rparr>,
                \<lparr>ident = 1, filename = ''02_magician.jpg'', card_name = ''02 magician''\<rparr>,
                \<lparr>ident = 2, filename = ''03_priestess.jpg'', card_name = ''03 priestess''\<rparr>],
               out)" ..
  then have bi: "build_index e a w =
      save_step a [\<lparr>ident = 0, filename = ''01_fool.jpg'', card_name = ''01 fool''\<rparr>,
                \<lparr>ident = 1, filename = ''02_magician.jpg'', card_name = ''02 magician''\<rparr>,
                \<lparr>ident = 2, filename = ''03_priestess.jpg'', card_name = ''03 priestess''\<rparr>]
         [[v1], [v2], [v3]] out w"
    by (simp add: build_index_def)
  from save_step_files [OF ret [unfolded bi] ni nm] show ?thesis
    by (simp add: bi meta_json_def)
qed

theorem build_follows_listing_order_witness:
  "files (final (build_index sample_env rws_args
            (rws_world [''01_fool.jpg'', ''02_magician.jpg'', ''03_priestess.jpg''])))
       ''data/indices/rws/metadata.json'' =
     Some (Json (JList
           [JObj [(''id'', JInt 0), (''filename'', JStr ''01_fool.jpg''),
                  (''card_name'', JStr ''01 fool'')],
            JObj [(''id'', JInt 1), (''filename'', JStr ''02_magician.jpg''),
                  (''card_name'', JStr ''02 magician'')],
            JObj [(''id'', JInt 2), (''filename'', JStr ''03_priestess.jpg''),
                  (''card_name'', JStr ''03 priestess'')]])) \<and>
   files (final (build_index sample_env rws_args
            (rws_world [''01_fool.jpg'', ''02_magician.jpg'', ''03_priestess.jpg''])))
       ''data/indices/rws/index.faiss'' = Some (Faiss [[1, 0, 0], [0, 1, 0], [0, 0, 1]])"
proof -
  have ret: "status (build_index sample_env rws_args
            (rws_world [''01_fool.jpg'', ''02_magician.jpg'', ''03_priestess.jpg''])) = Returned"
    by code_simp
  show ?thesis
    using build_follows_listing_order
          [of rws_args "rws_world [''01_fool.jpg'', ''02_magician.jpg'', ''03_priestess.jpg'']"
              sample_env "[1, 0, 0]" "[0, 1, 0]" "[0, 0, 1]", OF _ _ _ _ _ ret]
    by (simp add: rws_args_def rws_world_def sample_env_def path_join_def path_join2_def)
qed

text \<open>
  Claim C4 as stated fails: a directory that holds exactly the three files, listed by
  the operating system as \<^verbatim>\<open>02_magician.jpg\<close>, \<^verbatim>\<open>01_fool.jpg\<close>, \<^verbatim>\<open>03_priestess.jpg\<close>,
  gives the metadata in that order, with id 0 for \<^verbatim>\<open>02_magician.jpg\<close>.
\<close>

theorem listing_order_counterexample:
  "set (listdir (rws_world [''02_magician.jpg'', ''01_fool.jpg'', ''03_priestess.jpg''])
          ''data/raw_images/rws'') =
     {''01_fool.jpg'', ''02_magician.jpg'', ''03_priestess.jpg''} \<and>
   status (build_index sample_env rws_args
            (rws_world [''02_magician.jpg'', ''01_fool.jpg'', ''03_priestess.jpg''])) = Returned \<and>
   files (final (build_index sample_env rws_args
            (rws_world [''02_magician.jpg'', ''01_fool.jpg'', ''03_priestess.jpg''])))
       ''data/indices/rws/metadata.json'' =
     Some (Json (JList
           [JObj [(''id'', JInt 0), (''filename'', JStr ''02_magician.jpg''),
                  (''card_name'', JStr ''02 magician'')],
            JObj [(''id'', JInt 1), (''filename'', JStr ''01_fool.jpg''),
                  (''card_name'', JStr ''01 fool'')],
            JObj [(''id'', JInt 2), (''filename'', JStr ''03_priestess.jpg''),
                  (''card_name'', JStr ''03 priestess'')]])) \<and>
   files (final (build_index sample_env rws_args
            (rws_world [''02_magician.jpg'', ''01_fool.jpg'', ''03_priestess.jpg''])))
       ''data/indices/rws/metadata.json'' \<noteq>
     Some (Json (JList
           [JObj [(''id'', JInt 0), (''filename'', JStr ''01_fool.jpg''),
                  (''card_name'', JStr ''01 fool'')],
            JObj [(''id'', JInt 1), (''filename'', JStr ''02_magician.jpg''),
                  (''card_name'', JStr ''02 magician'')],
            JObj [(''id'', JInt 2), (''filename'', JStr ''03_priestess.jpg''),
                  (''card_name'', JStr ''03 priestess'')]]))"
  by code_simp

text \<open>
  Claim C1 at a directory listed as \<^verbatim>\<open>01_fool.jpg\<close>, \<^verbatim>\<open>bad.jpg\<close>, \<^verbatim>\<open>03_priestess.jpg\<close>
  where \<^verbatim>\<open>bad.jpg\<close> does not decode: the build completes, the index holds two rows, and
  the metadata entry at list position 1 (row 1 of the index) carries id 2, the position
  of its file in \<^verbatim>\<open>enumerate(image_files)\<close>. The ids are 0 and 2: they have a gap and
  id 2 names no row.
\<close>

theorem skipped_image_leaves_id_gap:
  "status (build_index sample_env rws_args
            (rws_world [''01_fool.jpg'', ''bad.jpg'', ''03_priestess.jpg''])) = Returned \<and>
   files (final (build_index sample_env rws_args
            (rws_world [''01_fool.jpg'', ''bad.jpg'', ''03_priestess.jpg''])))
       ''data/indices/rws/metadata.json'' =
     Some (Json (JList
           [JObj [(''id'', JInt 0), (''filename'', JStr ''01_fool.jpg''),
                  (''card_name'', JStr ''01 fool'')],
            JObj [(''id'', JInt 2), (''filename'', JStr ''03_priestess.jpg''),
                  (''card_name'', JStr ''03 priestess'')]])) \<and>
   files (final (build_index sample_env rws_args
            (rws_world [''01_fool.jpg'', ''bad.jpg'', ''03_priestess.jpg''])))
       ''data/indices/rws/index.faiss'' = Some (Faiss [[1, 0, 0], [0, 0, 1]])"
  by code_simp

section \<open>Missing inputs\<close>

text \<open>
  Claim C7, as amended. A build whose image directory does not exist prints
  \<^verbatim>\<open>Error: Image directory <path> not found.\<close> with the missing path, writes nothing and
  returns, so the process exits with status 0. A query whose index file or metadata
  file does not exist prints \<^verbatim>\<open>Error: Index or metadata not found in data/indices/<deck>\<close>,
  which names the deck's directory, writes nothing and returns, so the process exits
  with status 0 as well.
\<close>

theorem missing_input_returns_normally:
  "(\<not> exists w (path_join ''data'' [''raw_images'', deck a]) \<longrightarrow>
      exit_status (status (build_index e a w)) = 0 \<and>
      last (printed (build_index e a w)) =
        [S ''Error: Image directory '', S (path_join ''data'' [''raw_images'', deck a]),
         S '' not found.''] \<and>
      final (build_index e a w) = w) \<and>
   (\<not> exists w (path_join ''data'' [''indices'', dk, ''index.faiss'']) \<or>
    \<not> exists w (path_join ''data'' [''indices'', dk, ''metadata.json'']) \<longrightarrow>
      exit_status (status (test_index e dk q w)) = 0 \<and>
      last (printed (test_index e dk q w)) =
        [S ''Error: Index or metadata not found in data/indices/'', S dk] \<and>
      final (test_index e dk q w) = w)"
  by (auto simp: build_index_def embed_step_def test_index_def Let_def)

theorem missing_input_returns_normally_witness:
  "exit_status (status (build_index sample_env rws_args empty_world)) = 0 \<and>
   last (printed (build_index sample_env rws_args empty_world)) =
     [S ''Error: Image directory '', S ''data/raw_images/rws'', S '' not found.''] \<and>
   final (build_index sample_env rws_args empty_world) = empty_world \<and>
   exit_status (status (test_index sample_env ''rws'' ''a tarot card of the fool'' empty_world)) = 0 \<and>
   last (printed (test_index sample_env ''rws'' ''a tarot card of the fool'' empty_world)) =
     [S ''Error: Index or metadata not found in data/indices/'', S ''rws''] \<and>
   final (test_index sample_env ''rws'' ''a tarot card of the fool'' empty_world) = empty_world"
  using missing_input_returns_normally
          [of empty_world rws_args sample_env "''rws''" "''a tarot card of the fool''"]
  by (simp add: exists_def empty_world_def rws_args_def path_join_def path_join2_def)

text \<open>
  Claim C7 as stated fails: on a file system that holds neither the image directory of
  \<^verbatim>\<open>rws\<close> nor its index and metadata files, both scripts return from their function
  and the exit status is 0, not a non-zero one; the message of the query names
  \<^verbatim>\<open>data/indices/rws\<close> and neither of the two file paths.
\<close>

theorem missing_input_exit_status_counterexample:
  "\<not> exists empty_world ''data/raw_images/rws'' \<and>
   status (build_index sample_env rws_args empty_world) = Returned \<and>
   exit_status (status (build_index sample_env rws_args empty_world)) = 0 \<and>
   \<not> exists empty_world ''data/indices/rws/index.faiss'' \<and>
   \<not> exists empty_world ''data/indices/rws/metadata.json'' \<and>
   exit_status (status (test_index sample_env ''rws'' ''a tarot card of the fool'' empty_world)) = 0 \<and>
   printed (test_index sample_env ''rws'' ''a tarot card of the fool'' empty_world) =
     [[S ''Testing index for deck: '', S ''rws''],
      [S ''Error: Index or metadata not found in data/indices/'', S ''rws'']]"
  by code_simp

section \<open>The result loop of the query\<close>





text \<open>
  Claim C3 at a metadata list of three entries. Position \<open>-1\<close>, which is outside
  \<open>[0, 3)\<close>, passes the test \<^verbatim>\<open>idx < len(metadata)\<close> of line 72 and
  \<^verbatim>\<open>metadata[-1]\<close> reads the last entry: the loop reports \<^verbatim>\<open>03 priestess\<close> instead of
  \<^verbatim>\<open>Unknown Index\<close>. Position \<open>-4\<close> passes the test too and the subscript raises
  \<^verbatim>\<open>IndexError\<close>.
\<close>

theorem negative_position_reads_last_entry:
  "results_loop 0 1 [- 1] [0]
     [\<lparr>ident = 0, filename = ''01_fool.jpg'', card_name = ''01 fool''\<rparr>,
      \<lparr>ident = 1, filename = ''02_magician.jpg'', card_name = ''02 magician''\<rparr>,
      \<lparr>ident = 2, filename = ''03_priestess.jpg'', card_name = ''03 priestess''\<rparr>] [] =
     (Returned,
      [[S ''Rank '', N 1, S '': '', S ''03 priestess'', S '' (Score: '', F4 0, S '')''],
       [S ''        File: '', S ''03_priestess.jpg'']]) \<and>
   results_loop 0 1 [- 4] [0]
     [\<lparr>ident = 0, filename = ''01_fool.jpg'', card_name = ''01 fool''\<rparr>,
      \<lparr>ident = 1, filename = ''02_magician.jpg'', card_name = ''02 magician''\<rparr>,
      \<lparr>ident = 2, filename = ''03_priestess.jpg'', card_name = ''03 priestess''\<rparr>] [] =
     (Raised IndexError, [])"
  by code_simp

section \<open>The export document\<close>

lemma filter_update_other:
  "filter (\<lambda>kv. fst kv \<noteq> k) (AList.update k v al) = filter (\<lambda>kv. fst kv \<noteq> k) al"
  by (induction al) auto

lemma merge_export_cases:
  assumes "merge_export old deck_id cards = Inr new"
  obtains doc styles where "old = JObj doc" "map_of doc ''deckStyles'' = Some (JObj styles)"
      "new = JObj (AList.update ''deckStyles''
                (JObj (AList.update deck_id (JObj [(''cards'', JObj cards)]) styles)) doc)"
  | doc where "old = JObj doc" "map_of doc ''deckStyles'' = None"
      "new = JObj (AList.update ''deckStyles''
                (JObj [(deck_id, JObj [(''cards'', JObj cards)])]) doc)"
proof -
  from assms obtain doc where old: "old = JObj doc"
    by (cases old) (auto simp: merge_export_def)
  show thesis
  proof (cases "''deckStyles'' \<in> fst ` set doc")
    case True
    with assms old obtain styles where "map_of doc ''deckStyles'' = Some (JObj styles)"
      by (auto simp: merge_export_def split: option.splits json.splits)
    with assms old True that(1) show thesis
      by (auto simp: merge_export_def)
  next
    case False
    then have none: "map_of doc ''deckStyles'' = None"
      by (simp add: map_of_eq_None_iff)
    have "AList.update ''deckStyles'' v (AList.update ''deckStyles'' u doc) =
          AList.update ''deckStyles'' v doc" for u v
      by (induction doc) auto
    with assms old False none that(2) show thesis
      by (auto simp: merge_export_def update_conv')
  qed
qed

lemma merge_export_result:
  assumes "merge_export old deck_id cards = Inr new"
  shows "map_of (deck_entries new) deck_id = Some (JObj [(''cards'', JObj cards)])"
    and "filter (\<lambda>kv. fst kv \<noteq> deck_id) (deck_entries new) =
         filter (\<lambda>kv. fst kv \<noteq> deck_id) (deck_entries old)"
    and "filter (\<lambda>kv. fst kv \<noteq> ''deckStyles'') (top_entries new) =
         filter (\<lambda>kv. fst kv \<noteq> ''deckStyles'') (top_entries old)"
proof -
  from assms show "map_of (deck_entries new) deck_id = Some (JObj [(''cards'', JObj cards)])"
    by (cases rule: merge_export_cases)
       (simp_all add: deck_entries_def top_entries_def update_conv')
  from assms show "filter (\<lambda>kv. fst kv \<noteq> deck_id) (deck_entries new) =
         filter (\<lambda>kv. fst kv \<noteq> deck_id) (deck_entries old)"
    by (cases rule: merge_export_cases)
       (simp_all add: deck_entries_def top_entries_def update_conv' filter_update_other)
  from assms show "filter (\<lambda>kv. fst kv \<noteq> ''deckStyles'') (top_entries new) =
         filter (\<lambda>kv. fst kv \<noteq> ''deckStyles'') (top_entries old)"
    by (cases rule: merge_export_cases)
       (simp_all add: top_entries_def filter_update_other)
qed

lemma cards_loop_keys:
  "fst ` set (cards_loop xs acc) = fst ` set acc \<union> (\<lambda>x. card_name (fst x)) ` set xs"
  by (induction xs acc rule: cards_loop.induct) (auto simp: dom_update)

lemma cards_loop_distinct:
  "distinct (map fst acc) \<Longrightarrow> distinct (map fst (cards_loop xs acc))"
  by (induction xs acc rule: cards_loop.induct) (auto simp: distinct_update)

lemma cards_loop_map_of:
  "map_of (cards_loop xs acc) =
   map_of (rev (map (\<lambda>x. (card_name (fst x),
                            JObj [(''embedding'', tolist (snd x)), (''count'', JInt 1)])) xs) @ acc)"
  by (induction xs acc rule: cards_loop.induct) (simp_all add: update_conv')

lemma set_update_subset: "set (AList.update k v al) \<subseteq> insert (k, v) (set al)"
  by (induction al) auto

lemma cards_loop_subset:
  "set (cards_loop xs acc) \<subseteq>
   set acc \<union> (\<lambda>x. (card_name (fst x),
                     JObj [(''embedding'', tolist (snd x)), (''count'', JInt 1)])) ` set xs"
proof (induction xs acc rule: cards_loop.induct)
  case (1 cards_data)
  show ?case by simp
next
  case (2 m emb rest cards_data)
  from "2.IH" set_update_subset [of "card_name m"
         "JObj [(''embedding'', tolist emb), (''count'', JInt 1)]" cards_data]
  show ?case by (simp add: subset_iff) blast
qed

lemma embed_step_lengths:
  assumes "embed_step e a w = Inr (E, M, out)"
  shows "length E = length M"
proof -
  from assms obtain d fs out1 where "embed_loop e d 0 fs ([], [], out1) = (E, M, out)"
    by (auto simp: embed_step_def Let_def split: if_splits prod.splits)
  with embed_loop_length [of e d 0 fs "[]" "[]" out1] show ?thesis by simp
qed

lemma export_step_returned:
  assumes "status (export_step dk p M E out w) = Returned"
  obtains merged where
    "merge_export (load_export w p) (app_deck_id dk) (cards_loop (zip M E) []) = Inr merged"
    "files (final (export_step dk p M E out w)) p = Some (Json merged)"
    "p \<notin> dirs w"
    "last (printed (export_step dk p M E out w)) =
       [S ''Updated '', S p, S '' with '', N (int (length (cards_loop (zip M E) []))),
        S '' cards for '', S (app_deck_id dk)]"
proof -
  let ?cards = "cards_loop (zip M E) []"
  from assms obtain merged where
    me: "merge_export (load_export w p) (app_deck_id dk) ?cards = Inr merged"
    by (cases "merge_export (load_export w p) (app_deck_id dk) ?cards")
       (auto simp: export_step_def Let_def)
  from assms me obtain w1 where mk: "makedirs w (dirname p) = Inr w1"
    by (cases "makedirs w (dirname p)") (auto simp: export_step_def Let_def)
  from assms me mk obtain w2 where wr: "write_file w1 p (Json merged) = Inr w2"
    by (cases "write_file w1 p (Json merged)") (auto simp: export_step_def Let_def)
  from mk have d1: "dirs w \<subseteq> dirs w1"
    by (auto simp: makedirs_def split: if_splits)
  from wr have "p \<notin> dirs w1" and f2: "files w2 p = Some (Json merged)"
    by (auto simp: write_file_def split: if_splits)
  with d1 have nd: "p \<notin> dirs w" by blast
  show thesis
    using that [OF me _ nd] me mk wr f2 by (simp add: export_step_def Let_def)
qed

lemma save_step_export:
  assumes ret: "status (save_step a M E out w) = Returned"
    and ex: "export_json a = Some p" "p \<noteq> []"
  obtains w3 out2 where
    "save_step a M E out w = export_step (deck a) p M E out2 w3"
    "dirs w3 = insert (path_join ''data'' [''indices'', deck a]) (dirs w)"
    "\<And>q. q \<noteq> path_join (path_join ''data'' [''indices'', deck a]) [''index.faiss''] \<Longrightarrow>
          q \<noteq> path_join (path_join ''data'' [''indices'', deck a]) [''metadata.json''] \<Longrightarrow>
          files w3 q = files w q"
proof -
  let ?od = "path_join ''data'' [''indices'', deck a]"
  let ?ip = "path_join ?od [''index.faiss'']"
  let ?mp = "path_join ?od [''metadata.json'']"
  from ret obtain rows where vs: "vstack E = Inr rows"
    by (cases "vstack E") (auto simp: save_step_def)
  from ret vs obtain w1 where m1: "makedirs w ?od = Inr w1"
    by (cases "makedirs w ?od") (auto simp: save_step_def Let_def)
  from ret vs m1 obtain w2 where wi: "write_file w1 ?ip (Faiss rows) = Inr w2"
    by (cases "write_file w1 ?ip (Faiss rows)") (auto simp: save_step_def Let_def)
  from ret vs m1 wi obtain w3 where
    wm: "write_file w2 ?mp (Json (JList (map meta_json M))) = Inr w3"
    by (cases "write_file w2 ?mp (Json (JList (map meta_json M)))")
       (auto simp: save_step_def Let_def)
  have d3: "dirs w3 = insert ?od (dirs w)"
    using m1 wi wm by (auto simp: makedirs_def write_file_def split: if_splits)
  have f3: "files w3 q = files w q" if "q \<noteq> ?ip" "q \<noteq> ?mp" for q
    using m1 wi wm that by (auto simp: makedirs_def write_file_def split: if_splits)
  show thesis
    using that [OF _ d3 f3] vs m1 wi wm ex by (simp add: save_step_def Let_def)
qed

lemma build_export_completed:
  assumes es: "embed_step e a w = Inr (E, M, out)"
    and ret: "status (build_index e a w) = Returned"
    and ex: "export_json a = Some p" "p \<noteq> []"
    and ni: "p \<noteq> path_join (path_join ''data'' [''indices'', deck a]) [''index.faiss'']"
    and nm: "p \<noteq> path_join (path_join ''data'' [''indices'', deck a]) [''metadata.json'']"
  obtains merged where
    "merge_export (load_export w p) (app_deck_id (deck a)) (cards_loop (zip M E) []) = Inr merged"
    "files (final (build_index e a w)) p = Some (Json merged)"
    "last (printed (build_index e a w)) =
       [S ''Updated '', S p, S '' with '', N (int (length (cards_loop (zip M E) []))),
        S '' cards for '', S (app_deck_id (deck a))]"
    "p \<notin> dirs w"
proof -
  from es have bi: "build_index e a w = save_step a M E out w"
    by (simp add: build_index_def)
  with ret have ret': "status (save_step a M E out w) = Returned" by simp
  from ret' ex show thesis
  proof (rule save_step_export)
    fix w3 out2
    assume ss: "save_step a M E out w = export_step (deck a) p M E out2 w3"
      and d3: "dirs w3 = insert (path_join ''data'' [''indices'', deck a]) (dirs w)"
      and f3: "\<And>q. q \<noteq> path_join (path_join ''data'' [''indices'', deck a]) [''index.faiss''] \<Longrightarrow>
          q \<noteq> path_join (path_join ''data'' [''indices'', deck a]) [''metadata.json''] \<Longrightarrow>
          files w3 q = files w q"
    have run: "build_index e a w = export_step (deck a) p M E out2 w3"
      using bi ss by simp
    from ret have "status (export_step (deck a) p M E out2 w3) = Returned"
      unfolding run .
    then show thesis
    proof (rule export_step_returned)
      fix merged
      assume me: "merge_export (load_export w3 p) (app_deck_id (deck a))
                    (cards_loop (zip M E) []) = Inr merged"
        and fp: "files (final (export_step (deck a) p M E out2 w3)) p = Some (Json merged)"
        and nd: "p \<notin> dirs w3"
        and lp: "last (printed (export_step (deck a) p M E out2 w3)) =
           [S ''Updated '', S p, S '' with '', N (int (length (cards_loop (zip M E) []))),
            S '' cards for '', S (app_deck_id (deck a))]"
      from nd d3 have ndw: "p \<notin> dirs w" by simp
      have fw: "files w3 p = files w p" by (rule f3 [OF ni nm])
      have le: "load_export w3 p = load_export w p"
        using nd ndw fw by (simp add: load_export_def exists_def json_load_def)
      show thesis
      proof (rule that)
        show "merge_export (load_export w p) (app_deck_id (deck a))
                (cards_loop (zip M E) []) = Inr merged"
          using me unfolding le .
        show "files (final (build_index e a w)) p = Some (Json merged)"
          using fp unfolding run .
        show "last (printed (build_index e a w)) =
           [S ''Updated '', S p, S '' with '', N (int (length (cards_loop (zip M E) []))),
            S '' cards for '', S (app_deck_id (deck a))]"
          using lp unfolding run .
        show "p \<notin> dirs w" by (rule ndw)
      qed
    qed
  qed
qed




text \<open>
  Claim C10. In a build that completes with an export, \<^verbatim>\<open>metadata\<close> is the list written
  to the metadata file, one entry per indexed image, and the exported cards of the deck
  are \<^verbatim>\<open>cards_data\<close>: its keys are the card names of the metadata, each once, so the
  number of cards is the number of distinct card names, at most the number of indexed
  images; a lookup by card name gives the entry of the last image with that name;
  every entry has \<^verbatim>\<open>count\<close> 1; and the last message reports that number of cards.
\<close>

theorem export_cards_keyed_by_name:
  assumes es: "embed_step e a w = Inr (E, M, out)"
    and ret: "status (build_index e a w) = Returned"
    and ex: "export_json a = Some p" "p \<noteq> []"
    and ni: "p \<noteq> path_join (path_join ''data'' [''indices'', deck a]) [''index.faiss'']"
    and nm: "p \<noteq> path_join (path_join ''data'' [''indices'', deck a]) [''metadata.json'']"
  shows "files (final (build_index e a w))
           (path_join (path_join ''data'' [''indices'', deck a]) [''metadata.json'']) =
           Some (Json (JList (map meta_json M))) \<and>
         map_of (deck_entries (document_at (final (build_index e a w)) p)) (app_deck_id (deck a)) =
           Some (JObj [(''cards'', JObj (cards_loop (zip M E) []))]) \<and>
         distinct (map fst (cards_loop (zip M E) [])) \<and>
         set (map fst (cards_loop (zip M E) [])) = card_name ` set M \<and>
         length (cards_loop (zip M E) []) = card (card_name ` set M) \<and>
         length (cards_loop (zip M E) []) \<le> length M \<and>
         (\<forall>kv \<in> set (cards_loop (zip M E) []).
            \<exists>emb. snd kv = JObj [(''embedding'', emb), (''count'', JInt 1)]) \<and>
         map_of (cards_loop (zip M E) []) =
           map_of (rev (map (\<lambda>x. (card_name (fst x),
                     JObj [(''embedding'', tolist (snd x)), (''count'', JInt 1)])) (zip M E))) \<and>
         last (printed (build_index e a w)) =
           [S ''Updated '', S p, S '' with '', N (int (card (card_name ` set M))),
            S '' cards for '', S (app_deck_id (deck a))]"
proof -
  let ?cards = "cards_loop (zip M E) []"
  from es have bi: "build_index e a w = save_step a M E out w"
    by (simp add: build_index_def)
  from ex ni nm have "export_json a \<noteq> Some (path_join (path_join ''data'' [''indices'', deck a]) [''index.faiss''])"
    "export_json a \<noteq> Some (path_join (path_join ''data'' [''indices'', deck a]) [''metadata.json''])"
    by auto
  with ret have meta: "files (final (build_index e a w))
           (path_join (path_join ''data'' [''indices'', deck a]) [''metadata.json'']) =
           Some (Json (JList (map meta_json M)))"
    unfolding bi using save_step_files by blast
  have len: "length E = length M" using es by (rule embed_step_lengths)
  then have fstzip: "fst ` set (zip M E) = set M"
    by (metis map_fst_zip set_map)
  have dist: "distinct (map fst ?cards)"
    by (rule cards_loop_distinct) simp
  have keys: "set (map fst ?cards) = card_name ` set M"
    using cards_loop_keys [of "zip M E" "[]"] fstzip by (auto simp: image_image [symmetric])
  from dist have "length ?cards = card (set (map fst ?cards))"
    by (metis distinct_card length_map)
  with keys have cnt: "length ?cards = card (card_name ` set M)" by simp
  have "card (card_name ` set M) \<le> card (set M)" by (rule card_image_le) simp
  also have "\<dots> \<le> length M" by (rule card_length)
  finally have le: "length ?cards \<le> length M" using cnt by simp
  have shape: "\<forall>kv \<in> set ?cards. \<exists>emb. snd kv = JObj [(''embedding'', emb), (''count'', JInt 1)]"
    using cards_loop_subset [of "zip M E" "[]"] by auto
  have later: "map_of ?cards =
           map_of (rev (map (\<lambda>x. (card_name (fst x),
                     JObj [(''embedding'', tolist (snd x)), (''count'', JInt 1)])) (zip M E)))"
    using cards_loop_map_of [of "zip M E" "[]"] by simp
  from es ret ex ni nm show ?thesis
  proof (rule build_export_completed)
    fix merged
    assume me: "merge_export (load_export w p) (app_deck_id (deck a)) ?cards = Inr merged"
      and fp: "files (final (build_index e a w)) p = Some (Json merged)"
      and lp: "last (printed (build_index e a w)) =
           [S ''Updated '', S p, S '' with '', N (int (length ?cards)),
            S '' cards for '', S (app_deck_id (deck a))]"
    from fp have da: "document_at (final (build_index e a w)) p = merged"
      by (simp add: document_at_def)
    from merge_export_result(1) [OF me] have
      "map_of (deck_entries (document_at (final (build_index e a w)) p)) (app_deck_id (deck a)) =
           Some (JObj [(''cards'', JObj ?cards)])"
      unfolding da .
    with meta dist keys cnt le shape later lp show ?thesis by simp
  qed
qed

theorem export_cards_keyed_by_name_witness:
  "files (final (build_index sample_env export_args (rws_world [''fool.jpg'', ''fool.png''])))
     ''data/indices/rws/metadata.json'' =
     Some (Json (JList
       [JObj [(''id'', JInt 0), (''filename'', JStr ''fool.jpg''), (''card_name'', JStr ''fool'')],
        JObj [(''id'', JInt 1), (''filename'', JStr ''fool.png''), (''card_name'', JStr ''fool'')]])) \<and>
   map_of (deck_entries (document_at
        (final (build_index sample_env export_args (rws_world [''fool.jpg'', ''fool.png''])))
        ''data/vision/prototypes.json'')) ''rws-1909'' =
     Some (JObj [(''cards'',
       JObj [(''fool'', JObj [(''embedding'', JList [JList [JFloat 0, JFloat 1, JFloat 0]]),
                              (''count'', JInt 1)])])]) \<and>
   last (printed (build_index sample_env export_args (rws_world [''fool.jpg'', ''fool.png'']))) =
     [S ''Updated '', S ''data/vision/prototypes.json'', S '' with '', N 1, S '' cards for '',
      S ''rws-1909'']"
proof -
  let ?w = "rws_world [''fool.jpg'', ''fool.png'']"
  let ?M = "[\<lparr>ident = 0, filename = ''fool.jpg'', card_name = ''fool''\<rparr>,
             \<lparr>ident = 1, filename = ''fool.png'', card_name = ''fool''\<rparr>]"
  let ?E = "[[[1, 0, 0]], [[0, 1, 0 :: real]]]"
  have "\<not> isl (embed_step sample_env export_args ?w)" by code_simp
  moreover have "projr (embed_step sample_env export_args ?w) =
     (?E, ?M,
      [[S ''Building vector index for deck: '', S ''rws'', S '' on '', S ''cpu''],
       [S ''Using base CLIP model (no adapter loaded)''],
       [S ''Found '', N 2, S '' images. Generating embeddings...'']])"
    by code_simp
  ultimately have es: "embed_step sample_env export_args ?w =
     Inr (?E, ?M,
          [[S ''Building vector index for deck: '', S ''rws'', S '' on '', S ''cpu''],
           [S ''Using base CLIP model (no adapter loaded)''],
           [S ''Found '', N 2, S '' images. Generating embeddings...'']])"
    by (metis sum.collapse(2))
  have ret: "status (build_index sample_env export_args ?w) = Returned" by code_simp
  have ex: "export_json export_args = Some ''data/vision/prototypes.json''" by code_simp
  have ne: "''data/vision/prototypes.json'' \<noteq> []" by simp
  have ni: "''data/vision/prototypes.json'' \<noteq>
            path_join (path_join ''data'' [''indices'', deck export_args]) [''index.faiss'']"
    by code_simp
  have nm: "''data/vision/prototypes.json'' \<noteq>
            path_join (path_join ''data'' [''indices'', deck export_args]) [''metadata.json'']"
    by code_simp
  have dk: "app_deck_id (deck export_args) = ''rws-1909''" by code_simp
  have mp: "path_join (path_join ''data'' [''indices'', deck export_args]) [''metadata.json'']
            = ''data/indices/rws/metadata.json''" by code_simp
  have cards: "cards_loop (zip ?M ?E) [] =
     [(''fool'', JObj [(''embedding'', JList [JList [JFloat 0, JFloat 1, JFloat 0]]),
                       (''count'', JInt 1)])]"
    by code_simp
  have names: "card (card_name ` set ?M) = 1" by simp
  have js: "map meta_json ?M =
       [JObj [(''id'', JInt 0), (''filename'', JStr ''fool.jpg''), (''card_name'', JStr ''fool'')],
        JObj [(''id'', JInt 1), (''filename'', JStr ''fool.png''), (''card_name'', JStr ''fool'')]]"
    by code_simp
  from export_cards_keyed_by_name [OF es ret ex ne ni nm]
  show ?thesis unfolding dk mp cards names js by simp
qed

text \<open>
  Claim C8 at a build of \<^verbatim>\<open>rws\<close> over the one image \<^verbatim>\<open>01_fool.jpg\<close> with an export
  path: the value under \<^verbatim>\<open>embedding\<close> is a list that holds one list of floats, the
  \<^verbatim>\<open>tolist()\<close> of the array of shape \<open>(1, d)\<close>, not a flat list of floats.
\<close>

theorem exported_embedding_is_nested:
  "status (build_index sample_env export_args (rws_world [''01_fool.jpg''])) = Returned \<and>
   files (final (build_index sample_env export_args (rws_world [''01_fool.jpg''])))
     ''data/vision/prototypes.json'' =
     Some (Json (JObj [(''deckStyles'',
       JObj [(''rws-1909'',
         JObj [(''cards'',
           JObj [(''01 fool'',
             JObj [(''embedding'', JList [JList [JFloat 1, JFloat 0, JFloat 0]]),
                   (''count'', JInt 1)])])])])]))"
  by code_simp

end
